theory Spec2Isabelle
  imports Main "HOL-Library.Multiset" "HOL-Library.Option_ord"
begin

section \<open>Python and Django primitives used by the blog application\<close>

text \<open>
  Strings are lists of characters, one \<open>char\<close> per code point (the model covers the
  code points below 256). Timestamps are natural numbers (microseconds).
\<close>

type_synonym timestamp = nat

text \<open>Python's \<^verbatim>\<open>str.isspace\<close> on one character, for the code points below 256.\<close>

definition isspace :: "char \<Rightarrow> bool" where
  "isspace c = (let n = (of_char c :: nat) in
     (9 \<le> n \<and> n \<le> 13) \<or> (28 \<le> n \<and> n \<le> 32) \<or> n = 133 \<or> n = 160)"

text \<open>Python's \<^verbatim>\<open>s.split()\<close>: the maximal runs of non-whitespace characters.\<close>

function split :: "string \<Rightarrow> string list" where
  "split [] = []"
| "split (c # cs) =
     (if isspace c then split cs
      else (c # takeWhile (\<lambda>x. \<not> isspace x) cs) # split (dropWhile (\<lambda>x. \<not> isspace x) cs))"
  by pat_completeness auto
termination
  by (relation "measure length") (auto simp: length_dropWhile_le less_Suc_eq_le)


text \<open>
  Python's \<^verbatim>\<open>round(n / d)\<close> for non-negative integers \<open>n\<close> and \<open>d > 0\<close>: the
  nearest integer, an exact half going to the even neighbour. (The quotient \<open>n / 200\<close>
  of the source is a double; for every word count below \<open>2^52\<close> the double rounds
  as the exact quotient does.)
\<close>

definition round_div :: "nat \<Rightarrow> nat \<Rightarrow> nat" where
  "round_div n d = (let q = n div d; r = n mod d in
     if 2 * r < d then q
     else if d < 2 * r then q + 1
     else if even q then q else q + 1)"

text \<open>
  The library functions the models call, and the clock. \<open>slugify\<close> and
  \<open>strip_tags\<close> are Django's \<^verbatim>\<open>django.utils.text.slugify\<close> and
  \<^verbatim>\<open>django.utils.html.strip_tags\<close>; \<open>clock n\<close> is the value of the \<open>n\<close>-th
  reading of \<^verbatim>\<open>timezone.now()\<close>.
\<close>

record django =
  slugify :: "string \<Rightarrow> string"
  strip_tags :: "string \<Rightarrow> string"
  clock :: "nat \<Rightarrow> timestamp"

datatype error =
  Http404 | MultipleObjectsReturned | IntegrityError | DatabaseError | ValueError

section \<open>The data model (blog/models.py)\<close>

text \<open>
  \<open>pk\<close> is the row's \<^verbatim>\<open>id\<close>, \<open>None\<close> until the row is inserted. The tags of a
  post live in the tagging library's own tables and are not columns of the row. Foreign
  keys hold the id of the row they point to. The fields of \<^verbatim>\<open>Comment\<close> and
  \<^verbatim>\<open>Like\<close> carry the name of their class, since they share names with those of
  \<^verbatim>\<open>Post\<close>.
\<close>

record post =
  pk :: "nat option"
  created_at :: "timestamp option"
  updated_at :: "timestamp option"
  title :: string
  slug :: string
  author :: nat
  content :: string
  excerpt :: string
  featured_image :: "string option"
  status :: string
  published_at :: "timestamp option"
  view_count :: nat
  reading_time :: nat
  is_featured :: bool

record comment =
  Comment_pk :: "nat option"
  Comment_created_at :: "timestamp option"
  Comment_updated_at :: "timestamp option"
  Comment_post :: nat
  Comment_user :: nat
  Comment_content :: string
  Comment_parent :: "nat option"
  is_approved :: bool

record like =
  Like_pk :: "nat option"
  Like_user :: nat
  Like_post :: nat
  Like_created_at :: timestamp

text \<open>The request's user: Django's \<^verbatim>\<open>AnonymousUser\<close> or a stored user, by id.\<close>

datatype user = AnonymousUser | User nat

fun is_authenticated :: "user \<Rightarrow> bool" where
  "is_authenticated AnonymousUser = False"
| "is_authenticated (User u) = True"

text \<open>
  The store: one list of rows per table, and the number of clock readings made so far.
\<close>

record world =
  posts :: "post list"
  comments :: "comment list"
  likes :: "like list"
  ticks :: nat

definition timezone_now :: "django \<Rightarrow> world \<Rightarrow> timestamp \<times> world" where
  "timezone_now dj w = (clock dj (ticks w), w\<lparr>ticks := Suc (ticks w)\<rparr>)"

text \<open>The next value of an auto-increment key: one more than the largest key in use.\<close>

definition next_pk :: "nat option list \<Rightarrow> nat" where
  "next_pk ks = Suc (fold (\<lambda>k m. case k of None \<Rightarrow> m | Some i \<Rightarrow> max i m) ks 0)"

subsection \<open>Django's \<^verbatim>\<open>Model.save\<close> for a post\<close>

text \<open>The columns of a post other than the key, in field order.\<close>

definition non_pks :: "string list" where
  "non_pks = [''created_at'', ''updated_at'', ''title'', ''slug'', ''author'', ''content'',
     ''excerpt'', ''featured_image'', ''status'', ''published_at'', ''view_count'',
     ''reading_time'', ''is_featured'']"

text \<open>Writing one named column of the instance \<open>self\<close> into a stored row.\<close>

definition write_column :: "post \<Rightarrow> string \<Rightarrow> post \<Rightarrow> post" where
  "write_column self f row =
     (if f = ''created_at'' then row\<lparr>created_at := created_at self\<rparr>
      else if f = ''updated_at'' then row\<lparr>updated_at := updated_at self\<rparr>
      else if f = ''title'' then row\<lparr>title := title self\<rparr>
      else if f = ''slug'' then row\<lparr>slug := slug self\<rparr>
      else if f = ''author'' then row\<lparr>author := author self\<rparr>
      else if f = ''content'' then row\<lparr>content := content self\<rparr>
      else if f = ''excerpt'' then row\<lparr>excerpt := excerpt self\<rparr>
      else if f = ''featured_image'' then row\<lparr>featured_image := featured_image self\<rparr>
      else if f = ''status'' then row\<lparr>status := status self\<rparr>
      else if f = ''published_at'' then row\<lparr>published_at := published_at self\<rparr>
      else if f = ''view_count'' then row\<lparr>view_count := view_count self\<rparr>
      else if f = ''reading_time'' then row\<lparr>reading_time := reading_time self\<rparr>
      else if f = ''is_featured'' then row\<lparr>is_featured := is_featured self\<rparr>
      else row)"

definition write_columns :: "string list \<Rightarrow> post \<Rightarrow> post \<Rightarrow> post" where
  "write_columns fs self row = fold (write_column self) fs row"

text \<open>
  The unique constraint on \<open>slug\<close>: writing the slug of \<open>self\<close> fails when another row
  already holds it.
\<close>

definition slug_taken :: "post \<Rightarrow> post list \<Rightarrow> bool" where
  "slug_taken self rows = (\<exists>r \<in> set rows. pk r \<noteq> pk self \<and> slug r = slug self)"

text \<open>
  INSERT: \<^verbatim>\<open>auto_now_add\<close> and \<^verbatim>\<open>auto_now\<close> read the clock, one reading per
  field, in field order; a missing key is allocated.
\<close>

definition insert_post :: "django \<Rightarrow> post \<Rightarrow> world \<Rightarrow> error + (post \<times> world)" where
  "insert_post dj self w =
     (let (t1, w) = timezone_now dj w;
          self = self\<lparr>created_at := Some t1\<rparr>;
          (t2, w) = timezone_now dj w;
          self = self\<lparr>updated_at := Some t2\<rparr>
      in if slug_taken self (posts w) then Inl IntegrityError
         else let self = (case pk self of
                            None \<Rightarrow> self\<lparr>pk := Some (next_pk (map pk (posts w)))\<rparr>
                          | Some i \<Rightarrow> self)
              in Inr (self, w\<lparr>posts := posts w @ [self]\<rparr>))"

text \<open>
  \<^verbatim>\<open>Model.save(update_fields=...)\<close>. An empty \<open>update_fields\<close> list returns at once;
  a name that is no field of the model other than the key is a \<^verbatim>\<open>ValueError\<close> (a
  foreign key also answers to its column name, \<^verbatim>\<open>author_id\<close>).
  An instance with a key is written by UPDATE: every column, \<^verbatim>\<open>updated_at\<close> read
  from the clock first, or only the columns named in \<open>update_fields\<close> (then
  \<^verbatim>\<open>auto_now\<close> is applied only if \<^verbatim>\<open>updated_at\<close> is named). When the UPDATE
  matches no row the instance is inserted, unless \<open>update_fields\<close> was given.
\<close>

definition Model_save ::
  "django \<Rightarrow> string list option \<Rightarrow> post \<Rightarrow> world \<Rightarrow> error + (post \<times> world)" where
  "Model_save dj update_fields self w =
     (if update_fields = Some [] then Inr (self, w)
      else if \<not> (case update_fields of None \<Rightarrow> True
                  | Some ufs \<Rightarrow> set ufs \<subseteq> set (''author_id'' # non_pks))
        then Inl ValueError
      else case pk self of
        None \<Rightarrow> (if update_fields \<noteq> None then Inl ValueError else insert_post dj self w)
      | Some i \<Rightarrow>
          (let fs = (case update_fields of None \<Rightarrow> non_pks
                     | Some ufs \<Rightarrow>
                         filter (\<lambda>f. f \<in> set ufs \<or> (f = ''author'' \<and> ''author_id'' \<in> set ufs))
                           non_pks);
               (self, w) = (if ''updated_at'' \<in> set fs
                            then (let (t, w') = timezone_now dj w
                                  in (self\<lparr>updated_at := Some t\<rparr>, w'))
                            else (self, w))
           in if \<exists>r \<in> set (posts w). pk r = Some i
              then (if ''slug'' \<in> set fs \<and> slug_taken self (posts w) then Inl IntegrityError
                    else Inr (self, w\<lparr>posts := map (\<lambda>r. if pk r = Some i
                                                         then write_columns fs self r else r)
                                                  (posts w)\<rparr>))
              else if update_fields \<noteq> None then Inl DatabaseError
              else insert_post dj self w))"

subsection \<open>\<^verbatim>\<open>Post.save\<close> and the methods of \<^verbatim>\<open>Post\<close>\<close>

text \<open>
  The body of \<^verbatim>\<open>Post.save\<close> before the call of the base class: slug, excerpt,
  reading time and publication stamp, set on the instance.
\<close>

definition derive_fields :: "django \<Rightarrow> post \<Rightarrow> world \<Rightarrow> post \<times> world" where
  "derive_fields dj self w =
     (let self = (if slug self = [] then self\<lparr>slug := slugify dj (title self)\<rparr> else self);
          self = (if excerpt self = [] \<and> content self \<noteq> []
                  then self\<lparr>excerpt := take 297 (strip_tags dj (content self)) @ ''...''\<rparr>
                  else self);
          self = (if content self \<noteq> []
                  then (let word_count = length (split (strip_tags dj (content self)))
                        in self\<lparr>reading_time := max 1 (round_div word_count 200)\<rparr>)
                  else self)
      in if status self = ''published'' \<and> published_at self = None
         then (let (t, w') = timezone_now dj w in (self\<lparr>published_at := Some t\<rparr>, w'))
         else (self, w))"

definition Post_save ::
  "django \<Rightarrow> string list option \<Rightarrow> post \<Rightarrow> world \<Rightarrow> error + (post \<times> world)" where
  "Post_save dj update_fields self w =
     (let (self, w) = derive_fields dj self w in Model_save dj update_fields self w)"

text \<open>\<^verbatim>\<open>Post.get_like_count\<close> (and \<^verbatim>\<open>total_likes\<close>): the likes of the post, counted.\<close>

definition get_like_count :: "post \<Rightarrow> world \<Rightarrow> nat" where
  "get_like_count self w = length (filter (\<lambda>l. Some (Like_post l) = pk self) (likes w))"

definition user_has_liked :: "post \<Rightarrow> user \<Rightarrow> world \<Rightarrow> bool" where
  "user_has_liked self u w =
     (if is_authenticated u
      then (\<exists>l \<in> set (likes w). Some (Like_post l) = pk self \<and> User (Like_user l) = u)
      else False)"

definition increment_view_count :: "django \<Rightarrow> post \<Rightarrow> world \<Rightarrow> error + (post \<times> world)" where
  "increment_view_count dj self w =
     (let self = self\<lparr>view_count := view_count self + 1\<rparr>
      in Post_save dj (Some [''view_count'']) self w)"

subsection \<open>\<^verbatim>\<open>Comment\<close> and \<^verbatim>\<open>Like\<close>\<close>

text \<open>
  \<^verbatim>\<open>Comment.get_replies\<close>: the approved rows whose parent is this comment, in the
  model's default order (\<^verbatim>\<open>ordering = ["created_at"]\<close>). The reverse relation of
  an instance that was never saved raises.
\<close>

definition get_replies :: "comment \<Rightarrow> world \<Rightarrow> error + comment list" where
  "get_replies self w =
     (case Comment_pk self of
        None \<Rightarrow> Inl ValueError
      | Some i \<Rightarrow> Inr (sort_key Comment_created_at
                    (filter (\<lambda>c. Comment_parent c = Some i \<and> is_approved c) (comments w))))"


text \<open>
  \<^verbatim>\<open>Like.objects.get_or_create(post=post, user=user)\<close>: the matching row, or a new
  one whose \<^verbatim>\<open>created_at\<close> defaults to the current time.
\<close>

definition get_or_create ::
  "django \<Rightarrow> nat \<Rightarrow> nat \<Rightarrow> world \<Rightarrow> error + ((like \<times> bool) \<times> world)" where
  "get_or_create dj post_id user_id w =
     (case filter (\<lambda>l. Like_post l = post_id \<and> Like_user l = user_id) (likes w) of
        [] \<Rightarrow> (let (t, w) = timezone_now dj w;
                   l = \<lparr>Like_pk = Some (next_pk (map Like_pk (likes w))), Like_user = user_id,
                        Like_post = post_id, Like_created_at = t\<rparr>
               in Inr ((l, True), w\<lparr>likes := likes w @ [l]\<rparr>))
      | [l] \<Rightarrow> Inr ((l, False), w)
      | _ \<Rightarrow> Inl MultipleObjectsReturned)"

definition delete_like :: "like \<Rightarrow> world \<Rightarrow> world" where
  "delete_like l w = w\<lparr>likes := filter (\<lambda>x. Like_pk x \<noteq> Like_pk l) (likes w)\<rparr>"

section \<open>Forms (blog/forms.py)\<close>



section \<open>Views (blog/views.py)\<close>

text \<open>
  A request: its method (\<^verbatim>\<open>request.method\<close>), its user and the two POST parameters the views read
  (\<^verbatim>\<open>parent_id\<close> as the number it denotes, \<open>None\<close> when absent or empty).
\<close>

record request =
  request_method :: string
  user :: user
  POST_content :: "string option"
  POST_parent_id :: "nat option"

text \<open>
  Responses: the redirect to the login page of \<^verbatim>\<open>login_required\<close>, the redirect
  to a post's detail page with the messages queued for it (without their emoji), the
  JSON answer of the like endpoint, and the 405 of \<^verbatim>\<open>require_POST\<close>.
\<close>

datatype response =
  RedirectLogin
| RedirectPostDetail string "string list"
| JsonResponse bool nat string
| MethodNotAllowed

text \<open>\<^verbatim>\<open>get_object_or_404(Post, slug=slug)\<close> and \<^verbatim>\<open>get_object_or_404(Comment, id=...)\<close>.\<close>

definition get_post_or_404 :: "string \<Rightarrow> world \<Rightarrow> error + post" where
  "get_post_or_404 s w =
     (case filter (\<lambda>p. slug p = s) (posts w) of
        [] \<Rightarrow> Inl Http404
      | [p] \<Rightarrow> Inr p
      | _ \<Rightarrow> Inl MultipleObjectsReturned)"


subsection \<open>\<^verbatim>\<open>PostDetailView\<close>\<close>

definition get_queryset :: "user \<Rightarrow> world \<Rightarrow> post list" where
  "get_queryset u w =
     (if is_authenticated u
      then filter (\<lambda>p. status p = ''published'' \<or> (User (author p) = u \<and> status p = ''draft''))
             (posts w)
      else filter (\<lambda>p. status p = ''published'') (posts w))"

text \<open>\<^verbatim>\<open>DetailView.get_object\<close>: the row of the queryset with the slug of the URL.\<close>

definition get_object :: "user \<Rightarrow> string \<Rightarrow> world \<Rightarrow> error + post" where
  "get_object u s w =
     (case filter (\<lambda>p. slug p = s) (get_queryset u w) of
        [] \<Rightarrow> Inl Http404
      | [p] \<Rightarrow> Inr p
      | _ \<Rightarrow> Inl MultipleObjectsReturned)"

text \<open>
  The thread shown on the detail page, \<^verbatim>\<open>context["comments"]\<close>: the post's
  approved comments without a parent, \<^verbatim>\<open>order_by("-created_at")\<close>. (The database
  does not fix the order of rows with equal time stamps; here they come in reverse table
  order.)
\<close>

definition context_comments :: "post \<Rightarrow> world \<Rightarrow> comment list" where
  "context_comments post w =
     rev (sort_key Comment_created_at
            (filter (\<lambda>c. Some (Comment_post c) = pk post \<and> Comment_parent c = None \<and> is_approved c)
               (comments w)))"

text \<open>The template context (the related posts, found through the tags, are left out).\<close>

record template_context =
  object :: post
  ctx_comments :: "comment list"
  ctx_user_has_liked :: bool
  is_draft :: bool
  is_published :: bool

definition get_context_data ::
  "django \<Rightarrow> user \<Rightarrow> post \<Rightarrow> world \<Rightarrow> error + (template_context \<times> world)" where
  "get_context_data dj u post w =
     (case (if status post = ''published'' then increment_view_count dj post w
            else Inr (post, w)) of
        Inl e \<Rightarrow> Inl e
      | Inr (post, w) \<Rightarrow>
          Inr (\<lparr>object = post,
                ctx_comments = context_comments post w,
                ctx_user_has_liked =
                  (if is_authenticated u then user_has_liked post u w else False),
                is_draft = (status post = ''draft''),
                is_published = (status post = ''published'')\<rparr>, w))"

text \<open>A GET of the detail page: \<^verbatim>\<open>get_object\<close>, then \<^verbatim>\<open>get_context_data\<close>.\<close>

definition PostDetailView :: "django \<Rightarrow> user \<Rightarrow> string \<Rightarrow> world \<Rightarrow> error + (template_context \<times> world)" where
  "PostDetailView dj u s w =
     (case get_object u s w of
        Inl e \<Rightarrow> Inl e
      | Inr post \<Rightarrow> get_context_data dj u post w)"

subsection \<open>Interaction views\<close>


definition like_post ::
  "django \<Rightarrow> request \<Rightarrow> string \<Rightarrow> world \<Rightarrow> error + (response \<times> world)" where
  "like_post dj request s w =
     (case user request of
        AnonymousUser \<Rightarrow> Inr (RedirectLogin, w)
      | User uid \<Rightarrow>
          (case get_post_or_404 s w of
             Inl e \<Rightarrow> Inl e
           | Inr post \<Rightarrow>
               (case pk post of
                  None \<Rightarrow> Inl ValueError
                | Some post_id \<Rightarrow>
                    (case get_or_create dj post_id uid w of
                       Inl e \<Rightarrow> Inl e
                     | Inr ((l, created), w) \<Rightarrow>
                         if \<not> created
                         then Inr (RedirectPostDetail (slug post) [''Post unliked!''],
                                   delete_like l w)
                         else Inr (RedirectPostDetail (slug post) [''Post liked!''], w)))))"

definition ajax_like_post ::
  "django \<Rightarrow> request \<Rightarrow> string \<Rightarrow> world \<Rightarrow> error + (response \<times> world)" where
  "ajax_like_post dj request s w =
     (if request_method request \<noteq> ''POST'' then Inr (MethodNotAllowed, w)
      else case user request of
        AnonymousUser \<Rightarrow> Inr (RedirectLogin, w)
      | User uid \<Rightarrow>
          (case get_post_or_404 s w of
             Inl e \<Rightarrow> Inl e
           | Inr post \<Rightarrow>
               (case pk post of
                  None \<Rightarrow> Inl ValueError
                | Some post_id \<Rightarrow>
                    (case get_or_create dj post_id uid w of
                       Inl e \<Rightarrow> Inl e
                     | Inr ((l, created), w) \<Rightarrow>
                         if \<not> created
                         then (let w = delete_like l w
                               in Inr (JsonResponse False (get_like_count post w)
                                         ''Post unliked'', w))
                         else Inr (JsonResponse True (get_like_count post w)
                                     ''Post liked'', w)))))"

section \<open>A small store, used to run the model\<close>

text \<open>
  Stand-ins for the library functions on plain lower-case text without markup, where
  \<^verbatim>\<open>slugify\<close> and \<^verbatim>\<open>strip_tags\<close> return their argument; the clock advances
  by ten at each reading.
\<close>

definition demo_django :: django where
  "demo_django = \<lparr>slugify = (\<lambda>s. s), strip_tags = (\<lambda>s. s), clock = (\<lambda>n. 10 * n)\<rparr>"

definition empty_world :: world where
  "empty_world = \<lparr>posts = [], comments = [], likes = [], ticks = 0\<rparr>"

text \<open>A post as the create form hands it to \<^verbatim>\<open>save\<close>, as a draft and as published.\<close>

definition new_draft :: post where
  "new_draft = \<lparr>pk = None, created_at = None, updated_at = None, title = ''hello'',
     slug = [], author = 1, content = ''one two  three'', excerpt = [],
     featured_image = None, status = ''draft'', published_at = None, view_count = 0,
     reading_time = 0, is_featured = False\<rparr>"

definition new_published :: post where
  "new_published = new_draft\<lparr>status := ''published''\<rparr>"

text \<open>The draft as its first save returns it, and the store that save leaves.\<close>

definition saved_draft :: post where
  "saved_draft = new_draft\<lparr>pk := Some 1, created_at := Some 0, updated_at := Some 10,
     slug := ''hello'', excerpt := ''one two  three...'', reading_time := 1\<rparr>"

definition draft_world :: world where
  "draft_world = empty_world\<lparr>posts := [saved_draft], ticks := 2\<rparr>"

text \<open>Stored rows: a published post, a draft of the same author, and a published row
  that still has the column default \<open>0\<close> as its reading time.\<close>

definition hello_row :: post where
  "hello_row = \<lparr>pk = Some 1, created_at = Some 0, updated_at = Some 30, title = ''hello'',
     slug = ''hello'', author = 1, content = ''one two  three'',
     excerpt = ''one two  three...'', featured_image = None, status = ''published'',
     published_at = Some 20, view_count = 0, reading_time = 1, is_featured = False\<rparr>"

definition draft_row :: post where
  "draft_row = \<lparr>pk = Some 2, created_at = Some 40, updated_at = Some 50, title = ''notes'',
     slug = ''notes'', author = 1, content = ''to be written'', excerpt = ''my notes'',
     featured_image = None, status = ''draft'', published_at = None, view_count = 0,
     reading_time = 1, is_featured = False\<rparr>"

definition legacy_row :: post where
  "legacy_row = \<lparr>pk = Some 3, created_at = Some 0, updated_at = Some 0, title = ''older'',
     slug = ''older'', author = 2, content = ''one two  three'', excerpt = ''summary'',
     featured_image = None, status = ''published'', published_at = Some 0, view_count = 0,
     reading_time = 0, is_featured = False\<rparr>"

definition early_comment :: comment where
  "early_comment = \<lparr>Comment_pk = Some 1, Comment_created_at = Some 60,
     Comment_updated_at = Some 70, Comment_post = 1, Comment_user = 2,
     Comment_content = ''first comment'', Comment_parent = None, is_approved = True\<rparr>"

definition late_comment :: comment where
  "late_comment = \<lparr>Comment_pk = Some 2, Comment_created_at = Some 80,
     Comment_updated_at = Some 90, Comment_post = 1, Comment_user = 3,
     Comment_content = ''second comment'', Comment_parent = None, is_approved = True\<rparr>"

definition reply_comment :: comment where
  "reply_comment = \<lparr>Comment_pk = Some 3, Comment_created_at = Some 100,
     Comment_updated_at = Some 110, Comment_post = 1, Comment_user = 1,
     Comment_content = ''thanks a lot'', Comment_parent = Some 1, is_approved = True\<rparr>"

definition hidden_reply :: comment where
  "hidden_reply = \<lparr>Comment_pk = Some 4, Comment_created_at = Some 120,
     Comment_updated_at = Some 130, Comment_post = 1, Comment_user = 3,
     Comment_content = ''hidden reply'', Comment_parent = Some 1, is_approved = False\<rparr>"

definition other_like :: like where
  "other_like = \<lparr>Like_pk = Some 1, Like_user = 3, Like_post = 1, Like_created_at = 140\<rparr>"

definition demo_world :: world where
  "demo_world = \<lparr>posts = [hello_row, draft_row, legacy_row],
     comments = [early_comment, late_comment, reply_comment, hidden_reply],
     likes = [other_like], ticks = 15\<rparr>"

definition demo_request :: request where
  "demo_request = \<lparr>request_method = ''POST'', user = User 2, POST_content = Some ''0123456789'',
     POST_parent_id = None\<rparr>"

section \<open>Properties of the primitives and of the save path\<close>

text \<open>\<open>round_div n d\<close> is a nearest integer to \<open>n / d\<close>.\<close>

lemma round_div_nearest:
  assumes "0 < d"
  shows "2 * n \<le> 2 * d * round_div n d + d \<and> 2 * d * round_div n d \<le> 2 * n + d"
proof -
  define q where "q = n div d"
  define r where "r = n mod d"
  have n: "n = d * q + r" by (simp add: q_def r_def)
  have r: "r < d" using assms by (simp add: r_def)
  have rd: "round_div n d =
      (if 2 * r < d then q else if d < 2 * r then q + 1 else if even q then q else q + 1)"
    by (simp add: round_div_def q_def r_def Let_def)
  have "2 * (d * q + r) \<le> 2 * d * (if 2 * r < d then q else if d < 2 * r then q + 1
            else if even q then q else q + 1) + d \<and>
        2 * d * (if 2 * r < d then q else if d < 2 * r then q + 1
            else if even q then q else q + 1) \<le> 2 * (d * q + r) + d"
    using r by (auto simp: algebra_simps)
  then show ?thesis by (simp only: rd[symmetric] n[symmetric])
qed


text \<open>
  The base save changes nothing of the instance but its key and its two automatic
  time stamps, and a full save leaves the instance in the table as it returns it.
\<close>

lemma insert_post_frame:
  "insert_post dj self w = Inr (self', w') \<Longrightarrow>
     title self' = title self \<and> slug self' = slug self \<and> author self' = author self \<and>
     content self' = content self \<and> excerpt self' = excerpt self \<and>
     featured_image self' = featured_image self \<and> status self' = status self \<and>
     published_at self' = published_at self \<and> view_count self' = view_count self \<and>
     reading_time self' = reading_time self \<and> is_featured self' = is_featured self"
  unfolding insert_post_def timezone_now_def Let_def
  by (auto split: if_splits option.splits prod.splits)

lemma Model_save_frame:
  "Model_save dj uf self w = Inr (self', w') \<Longrightarrow>
     title self' = title self \<and> slug self' = slug self \<and> author self' = author self \<and>
     content self' = content self \<and> excerpt self' = excerpt self \<and>
     featured_image self' = featured_image self \<and> status self' = status self \<and>
     published_at self' = published_at self \<and> view_count self' = view_count self \<and>
     reading_time self' = reading_time self \<and> is_featured self' = is_featured self"
  unfolding Model_save_def timezone_now_def Let_def
  by (auto split: if_splits option.splits prod.splits dest: insert_post_frame)

lemma write_columns_all: "pk r = pk self \<Longrightarrow> write_columns non_pks self r = self"
  by (simp add: write_columns_def non_pks_def write_column_def)

lemma insert_post_stored: "insert_post dj self w = Inr (self', w') \<Longrightarrow> self' \<in> set (posts w')"
  unfolding insert_post_def timezone_now_def Let_def
  by (auto split: if_splits option.splits prod.splits)

lemma non_pks_members:
  "''updated_at'' \<in> set non_pks" "''slug'' \<in> set non_pks" "non_pks \<noteq> []"
  by (simp_all add: non_pks_def)

lemma Model_save_full_stored:
  "Model_save dj None self w = Inr (self', w') \<Longrightarrow> self' \<in> set (posts w')"
  unfolding Model_save_def timezone_now_def Let_def
  by (auto split: if_splits option.splits prod.splits dest: insert_post_stored
      simp: write_columns_all non_pks_members image_iff)


lemma derive_fields_excerpt:
  "excerpt (fst (derive_fields dj self w)) =
     (if excerpt self = [] \<and> content self \<noteq> []
      then take 297 (strip_tags dj (content self)) @ ''...'' else excerpt self)"
  by (auto simp: derive_fields_def Let_def timezone_now_def split: prod.splits)

lemma derive_fields_published_at:
  "published_at (fst (derive_fields dj self w)) =
     (if status self = ''published'' \<and> published_at self = None
      then Some (clock dj (ticks w)) else published_at self)"
  by (simp add: derive_fields_def Let_def timezone_now_def split: prod.splits)

lemma derive_fields_world:
  "snd (derive_fields dj self w) =
     (if status self = ''published'' \<and> published_at self = None
      then w\<lparr>ticks := Suc (ticks w)\<rparr> else w)"
  by (simp add: derive_fields_def Let_def timezone_now_def split: prod.splits)

lemma derive_fields_keeps:
  "pk (fst (derive_fields dj self w)) = pk self"
  "created_at (fst (derive_fields dj self w)) = created_at self"
  "updated_at (fst (derive_fields dj self w)) = updated_at self"
  "status (fst (derive_fields dj self w)) = status self"
  "content (fst (derive_fields dj self w)) = content self"
  "view_count (fst (derive_fields dj self w)) = view_count self"
  by (simp_all add: derive_fields_def Let_def timezone_now_def split: prod.splits)

lemma Post_save_unfold:
  "Post_save dj uf self w =
     Model_save dj uf (fst (derive_fields dj self w)) (snd (derive_fields dj self w))"
  by (simp add: Post_save_def split: prod.splits)

lemma Post_save_full_stored:
  "Post_save dj None self w = Inr (self', w') \<Longrightarrow> self' \<in> set (posts w')"
  by (simp add: Post_save_unfold Model_save_full_stored)

lemma insert_post_created:
  "insert_post dj self w = Inr (self', w') \<Longrightarrow> created_at self' = Some (clock dj (ticks w))"
  unfolding insert_post_def timezone_now_def Let_def
  by (auto split: if_splits option.splits prod.splits)

lemma Model_save_created_new:
  "Model_save dj None self w = Inr (self', w') \<Longrightarrow> pk self = None \<Longrightarrow>
     created_at self' = Some (clock dj (ticks w))"
  unfolding Model_save_def Let_def
  by (auto split: if_splits option.splits prod.splits dest: insert_post_created)

lemma Model_save_created_existing:
  "Model_save dj uf self w = Inr (self', w') \<Longrightarrow> pk self \<noteq> None \<Longrightarrow>
     \<exists>r \<in> set (posts w). pk r = pk self \<Longrightarrow> created_at self' = created_at self"
  unfolding Model_save_def timezone_now_def Let_def
  by (auto split: if_splits option.splits prod.splits)

lemma derive_fields_posts: "posts (snd (derive_fields dj self w)) = posts w"
  by (simp add: derive_fields_world)

text \<open>An INSERT stamps the creation time from a clock reading that lies behind the store it leaves.\<close>

lemma insert_post_ticks:
  "insert_post dj self w = Inr (self', w') \<Longrightarrow>
     created_at self' = Some (clock dj (ticks w)) \<and> ticks w' = Suc (Suc (ticks w))
     \<and> (pk self = None \<longrightarrow> pk self' \<noteq> None)"
  unfolding insert_post_def timezone_now_def Let_def
  by (auto split: if_splits option.splits prod.splits)

lemma Model_save_insert_ticks:
  "Model_save dj None self w = Inr (self', w') \<Longrightarrow> pk self = None \<Longrightarrow>
     created_at self' = Some (clock dj (ticks w)) \<and> ticks w' = Suc (Suc (ticks w))
     \<and> pk self' \<noteq> None"
  unfolding Model_save_def Let_def
  by (auto split: if_splits option.splits prod.splits dest: insert_post_ticks)

lemma Post_save_insert_created:
  assumes "Post_save dj None self0 w0 = Inr (p0, w1)" and "pk self0 = None"
  shows "\<exists>n. created_at p0 = Some (clock dj n) \<and> n < ticks w1 \<and> pk p0 \<noteq> None"
proof -
  let ?d = "fst (derive_fields dj self0 w0)" and ?w = "snd (derive_fields dj self0 w0)"
  have ms: "Model_save dj None ?d ?w = Inr (p0, w1)"
    using assms(1) by (simp add: Post_save_unfold)
  have "pk ?d = None" using assms(2) by (simp add: derive_fields_keeps)
  from Model_save_insert_ticks[OF ms this]
  have "created_at p0 = Some (clock dj (ticks ?w))" "ticks ?w < ticks w1" "pk p0 \<noteq> None"
    by simp_all
  then show ?thesis by blast
qed


section \<open>Derived fields on save\<close>



text \<open>
  C5. A save of a post with an empty excerpt and non-empty content sets the excerpt to
  the first 297 characters of the stripped content followed by three dots; a save of a
  post with a non-empty excerpt keeps the excerpt as it is. After a full save the stored
  row is the instance.
\<close>

theorem excerpt_derived_or_preserved:
  assumes "Post_save dj update_fields self w = Inr (self', w')"
  shows "(excerpt self = [] \<and> content self \<noteq> [] \<longrightarrow>
            excerpt self' = take 297 (strip_tags dj (content self)) @ ''...'')
         \<and> (excerpt self \<noteq> [] \<longrightarrow> excerpt self' = excerpt self)
         \<and> (update_fields = None \<longrightarrow> self' \<in> set (posts w'))"
proof -
  from assms have "excerpt self' = excerpt (fst (derive_fields dj self w))"
    unfolding Post_save_unfold by (auto dest: Model_save_frame)
  then have "excerpt self' = (if excerpt self = [] \<and> content self \<noteq> []
      then take 297 (strip_tags dj (content self)) @ ''...'' else excerpt self)"
    by (simp only: derive_fields_excerpt)
  moreover have "update_fields = None \<longrightarrow> self' \<in> set (posts w')"
    using assms Post_save_full_stored by blast
  ultimately show ?thesis by simp
qed



theorem excerpt_derived_or_preserved_witness:
  "excerpt new_draft = [] \<and> content new_draft \<noteq> []
   \<and> Post_save demo_django None new_draft empty_world =
       Inr (new_draft\<lparr>pk := Some 1, created_at := Some 0, updated_at := Some 10,
              slug := ''hello'', excerpt := ''one two  three...'', reading_time := 1\<rparr>,
            empty_world\<lparr>posts := [new_draft\<lparr>pk := Some 1, created_at := Some 0,
              updated_at := Some 10, slug := ''hello'', excerpt := ''one two  three...'',
              reading_time := 1\<rparr>], ticks := 2\<rparr>)
   \<and> take 297 (strip_tags demo_django (content new_draft)) @ ''...'' = ''one two  three...''
   \<and> excerpt draft_row = ''my notes''
   \<and> Post_save demo_django None (draft_row\<lparr>content := ''a b''\<rparr>) demo_world =
       Inr (draft_row\<lparr>content := ''a b'', updated_at := Some 150\<rparr>,
            demo_world\<lparr>posts := [hello_row,
              draft_row\<lparr>content := ''a b'', updated_at := Some 150\<rparr>, legacy_row],
              ticks := 16\<rparr>)"
proof -
  have s1: "Post_save demo_django None new_draft empty_world =
       Inr (new_draft\<lparr>pk := Some 1, created_at := Some 0, updated_at := Some 10,
              slug := ''hello'', excerpt := ''one two  three...'', reading_time := 1\<rparr>,
            empty_world\<lparr>posts := [new_draft\<lparr>pk := Some 1, created_at := Some 0,
              updated_at := Some 10, slug := ''hello'', excerpt := ''one two  three...'',
              reading_time := 1\<rparr>], ticks := 2\<rparr>)"
    by code_simp
  have s2: "Post_save demo_django None (draft_row\<lparr>content := ''a b''\<rparr>) demo_world =
       Inr (draft_row\<lparr>content := ''a b'', updated_at := Some 150\<rparr>,
            demo_world\<lparr>posts := [hello_row,
              draft_row\<lparr>content := ''a b'', updated_at := Some 150\<rparr>, legacy_row],
              ticks := 16\<rparr>)"
    by code_simp
  show ?thesis
    using excerpt_derived_or_preserved[OF s1] excerpt_derived_or_preserved[OF s2] s1 s2
    by (simp add: new_draft_def draft_row_def demo_django_def)
qed

section \<open>The publication stamp\<close>

text \<open>
  C2, as stated, fails: a post created directly as published gets its publication
  stamp from the clock before the INSERT stamps \<^verbatim>\<open>created_at\<close>, so with a clock
  that advances \<^verbatim>\<open>created_at\<close> is the later of the two.
\<close>

theorem published_before_created_counterexample:
  "status new_published = ''published'' \<and> published_at new_published = None
   \<and> Post_save demo_django None new_published empty_world =
       Inr (new_published\<lparr>pk := Some 1, created_at := Some 10, updated_at := Some 20,
              slug := ''hello'', excerpt := ''one two  three...'', reading_time := 1,
              published_at := Some 0\<rparr>,
            empty_world\<lparr>posts := [new_published\<lparr>pk := Some 1, created_at := Some 10,
              updated_at := Some 20, slug := ''hello'', excerpt := ''one two  three...'',
              reading_time := 1, published_at := Some 0\<rparr>], ticks := 3\<rparr>)
   \<and> \<not> (Some (10::nat) \<le> Some 0)"
proof -
  have "Post_save demo_django None new_published empty_world =
       Inr (new_published\<lparr>pk := Some 1, created_at := Some 10, updated_at := Some 20,
              slug := ''hello'', excerpt := ''one two  three...'', reading_time := 1,
              published_at := Some 0\<rparr>,
            empty_world\<lparr>posts := [new_published\<lparr>pk := Some 1, created_at := Some 10,
              updated_at := Some 20, slug := ''hello'', excerpt := ''one two  three...'',
              reading_time := 1, published_at := Some 0\<rparr>], ticks := 3\<rparr>)"
    by code_simp
  then show ?thesis by (simp add: new_published_def new_draft_def)
qed

text \<open>
  C2, amended. With a clock that never runs backwards: a save of a post with status
  "published" and no publication stamp sets the stamp to the current time; a stamp that
  is set is never changed or cleared, and a post that is not published gets none. When
  the post was inserted by an earlier save and its row is still stored, the save that
  publishes it keeps \<^verbatim>\<open>created_at\<close> and \<^verbatim>\<open>created_at \<le> published_at\<close>; when
  the post is new and saved as published, \<^verbatim>\<open>published_at \<le> created_at\<close>. After a
  full save the stored row is the instance.
\<close>

theorem published_at_stamped_once:
  assumes "Post_save dj update_fields self w = Inr (self', w')"
    and "\<forall>m n. m \<le> n \<longrightarrow> clock dj m \<le> clock dj n"
  shows "(status self = ''published'' \<and> published_at self = None \<longrightarrow>
            published_at self' = Some (clock dj (ticks w)))
       \<and> (published_at self \<noteq> None \<longrightarrow> published_at self' = published_at self)
       \<and> (status self \<noteq> ''published'' \<longrightarrow> published_at self' = published_at self)
       \<and> (\<forall>self0 w0 p0 w1.
             Post_save dj None self0 w0 = Inr (p0, w1) \<and> pk self0 = None
             \<and> ticks w1 \<le> ticks w
             \<and> pk self = pk p0 \<and> created_at self = created_at p0
             \<and> (\<exists>r \<in> set (posts w). pk r = pk self)
             \<and> status self = ''published'' \<and> published_at self = None \<longrightarrow>
             created_at self' = created_at p0 \<and> created_at self' \<noteq> None
             \<and> created_at self' \<le> published_at self')
       \<and> (status self = ''published'' \<and> published_at self = None \<and> pk self = None
            \<and> update_fields = None \<longrightarrow>
            created_at self' \<noteq> None \<and> published_at self' \<le> created_at self')
       \<and> (update_fields = None \<longrightarrow> self' \<in> set (posts w'))"
proof -
  let ?d = "fst (derive_fields dj self w)" and ?w = "snd (derive_fields dj self w)"
  have ms: "Model_save dj update_fields ?d ?w = Inr (self', w')"
    using assms(1) by (simp add: Post_save_unfold)
  have pa: "published_at self' = (if status self = ''published'' \<and> published_at self = None
      then Some (clock dj (ticks w)) else published_at self)"
    using Model_save_frame[OF ms] by (simp add: derive_fields_published_at)
  have ex: "pk self \<noteq> None \<Longrightarrow> \<exists>r \<in> set (posts w). pk r = pk self \<Longrightarrow>
      created_at self' = created_at self"
    using Model_save_created_existing[OF ms]
    by (simp add: derive_fields_keeps derive_fields_posts)
  have two: "created_at self' = created_at p0 \<and> created_at self' \<noteq> None
      \<and> created_at self' \<le> published_at self'"
    if h: "Post_save dj None self0 w0 = Inr (p0, w1)" "pk self0 = None" "ticks w1 \<le> ticks w"
      "pk self = pk p0" "created_at self = created_at p0"
      "\<exists>r \<in> set (posts w). pk r = pk self"
      "status self = ''published''" "published_at self = None"
    for self0 w0 p0 w1
  proof -
    from Post_save_insert_created[OF h(1) h(2)]
    obtain n where n: "created_at p0 = Some (clock dj n)" "n < ticks w1" "pk p0 \<noteq> None"
      by blast
    have c: "created_at self' = Some (clock dj n)"
      using ex h(4) h(5) h(6) n by simp
    have "clock dj n \<le> clock dj (ticks w)"
      using assms(2) n(2) h(3) by simp
    then show ?thesis using c n(1) pa h(7) h(8) by simp
  qed
  have new: "status self = ''published'' \<Longrightarrow> published_at self = None \<Longrightarrow> pk self = None \<Longrightarrow>
      update_fields = None \<Longrightarrow> created_at self' = Some (clock dj (Suc (ticks w)))"
    using Model_save_created_new[of dj ?d ?w self' w'] ms
    by (simp add: derive_fields_keeps derive_fields_world)
  have le: "clock dj (ticks w) \<le> clock dj (Suc (ticks w))"
    using assms(2) by simp
  have st: "update_fields = None \<longrightarrow> self' \<in> set (posts w')"
    using assms(1) Post_save_full_stored by blast
  have four: "\<forall>self0 w0 p0 w1.
             Post_save dj None self0 w0 = Inr (p0, w1) \<and> pk self0 = None
             \<and> ticks w1 \<le> ticks w
             \<and> pk self = pk p0 \<and> created_at self = created_at p0
             \<and> (\<exists>r \<in> set (posts w). pk r = pk self)
             \<and> status self = ''published'' \<and> published_at self = None \<longrightarrow>
             created_at self' = created_at p0 \<and> created_at self' \<noteq> None
             \<and> created_at self' \<le> published_at self'"
    using two by blast
  have rest: "(status self = ''published'' \<and> published_at self = None \<longrightarrow>
            published_at self' = Some (clock dj (ticks w)))
       \<and> (published_at self \<noteq> None \<longrightarrow> published_at self' = published_at self)
       \<and> (status self \<noteq> ''published'' \<longrightarrow> published_at self' = published_at self)
       \<and> (status self = ''published'' \<and> published_at self = None \<and> pk self = None
            \<and> update_fields = None \<longrightarrow>
            created_at self' \<noteq> None \<and> published_at self' \<le> created_at self')"
    using pa new le by auto
  show ?thesis using rest four st by blast
qed

theorem published_at_stamped_once_witness:
  "clock demo_django 1 \<le> clock demo_django 2
   \<and> pk new_draft = None
   \<and> Post_save demo_django None new_draft empty_world = Inr (saved_draft, draft_world)
   \<and> Post_save demo_django None (saved_draft\<lparr>status := ''published''\<rparr>) draft_world =
       Inr (saved_draft\<lparr>status := ''published'', published_at := Some 20,
              updated_at := Some 30\<rparr>,
            draft_world\<lparr>posts := [saved_draft\<lparr>status := ''published'',
              published_at := Some 20, updated_at := Some 30\<rparr>], ticks := 4\<rparr>)
   \<and> created_at saved_draft = Some 0
   \<and> created_at (saved_draft\<lparr>status := ''published'', published_at := Some 20,
         updated_at := Some 30\<rparr>)
       \<le> published_at (saved_draft\<lparr>status := ''published'', published_at := Some 20,
         updated_at := Some 30\<rparr>)
   \<and> Post_save demo_django None hello_row demo_world =
       Inr (hello_row\<lparr>updated_at := Some 150\<rparr>,
            demo_world\<lparr>posts := [hello_row\<lparr>updated_at := Some 150\<rparr>, draft_row,
              legacy_row], ticks := 16\<rparr>)
   \<and> published_at hello_row = Some 20"
proof -
  have m: "\<forall>m n. m \<le> n \<longrightarrow> clock demo_django m \<le> clock demo_django n"
    by (simp add: demo_django_def)
  have s0: "Post_save demo_django None new_draft empty_world = Inr (saved_draft, draft_world)"
    by code_simp
  have s1: "Post_save demo_django None (saved_draft\<lparr>status := ''published''\<rparr>) draft_world =
       Inr (saved_draft\<lparr>status := ''published'', published_at := Some 20,
              updated_at := Some 30\<rparr>,
            draft_world\<lparr>posts := [saved_draft\<lparr>status := ''published'',
              published_at := Some 20, updated_at := Some 30\<rparr>], ticks := 4\<rparr>)"
    by code_simp
  have s2: "Post_save demo_django None hello_row demo_world =
       Inr (hello_row\<lparr>updated_at := Some 150\<rparr>,
            demo_world\<lparr>posts := [hello_row\<lparr>updated_at := Some 150\<rparr>, draft_row,
              legacy_row], ticks := 16\<rparr>)"
    by code_simp
  have n: "pk new_draft = None" by (simp add: new_draft_def)
  have h: "ticks draft_world \<le> ticks draft_world"
    "pk (saved_draft\<lparr>status := ''published''\<rparr>) = pk saved_draft"
    "created_at (saved_draft\<lparr>status := ''published''\<rparr>) = created_at saved_draft"
    "\<exists>r \<in> set (posts draft_world). pk r = pk (saved_draft\<lparr>status := ''published''\<rparr>)"
    "status (saved_draft\<lparr>status := ''published''\<rparr>) = ''published''"
    "published_at (saved_draft\<lparr>status := ''published''\<rparr>) = None"
    by (simp_all add: draft_world_def saved_draft_def new_draft_def)
  have le: "created_at (saved_draft\<lparr>status := ''published'', published_at := Some 20,
         updated_at := Some 30\<rparr>)
       \<le> published_at (saved_draft\<lparr>status := ''published'', published_at := Some 20,
         updated_at := Some 30\<rparr>)"
    using published_at_stamped_once[OF s1 m] s0 n h by blast
  have c: "created_at saved_draft = Some 0" by (simp add: saved_draft_def)
  have k: "published_at hello_row = Some 20 \<and> clock demo_django 1 \<le> clock demo_django 2"
    using published_at_stamped_once[OF s2 m] by (simp add: hello_row_def demo_django_def)
  show ?thesis using s0 s1 s2 n le c k by simp
qed

section \<open>The comment thread\<close>

text \<open>
  C3, as stated, fails: the detail view orders the thread by \<^verbatim>\<open>-created_at\<close>, so
  the newest comment comes first and the thread is not in ascending order.
\<close>

theorem thread_not_oldest_first_counterexample:
  "context_comments hello_row demo_world = [late_comment, early_comment]
   \<and> Comment_created_at late_comment = Some 80 \<and> Comment_created_at early_comment = Some 60
   \<and> \<not> sorted (map Comment_created_at (context_comments hello_row demo_world))"
proof -
  have "context_comments hello_row demo_world = [late_comment, early_comment]"
    by code_simp
  then show ?thesis by (simp add: late_comment_def early_comment_def)
qed

text \<open>
  C3, amended. The thread of the detail view holds exactly the approved comments of the
  post that have no parent, newest first (descending \<^verbatim>\<open>created_at\<close>); the replies
  query of a comment returns exactly the approved comments whose parent it is, oldest
  first.
\<close>

theorem thread_newest_first:
  "mset (context_comments post w) =
     mset (filter (\<lambda>c. Some (Comment_post c) = pk post \<and> Comment_parent c = None \<and> is_approved c)
             (comments w))
   \<and> sorted (rev (map Comment_created_at (context_comments post w)))
   \<and> (\<forall>rs. get_replies c w = Inr rs \<longrightarrow>
          mset rs = mset (filter (\<lambda>r. Comment_parent r = Comment_pk c \<and> is_approved r) (comments w))
          \<and> (\<forall>r \<in> set rs. is_approved r \<and> Comment_parent r = Comment_pk c)
          \<and> sorted (map Comment_created_at rs))"
  by (auto simp: context_comments_def get_replies_def rev_map[symmetric] split: option.splits)

theorem thread_newest_first_witness:
  "context_comments hello_row demo_world = [late_comment, early_comment]
   \<and> get_replies early_comment demo_world = Inr [reply_comment]
   \<and> hidden_reply \<in> set (comments demo_world)
   \<and> Comment_parent hidden_reply = Comment_pk early_comment
   \<and> sorted (rev (map Comment_created_at (context_comments hello_row demo_world)))
   \<and> is_approved reply_comment"
proof -
  have a: "context_comments hello_row demo_world = [late_comment, early_comment]"
    by code_simp
  have b: "get_replies early_comment demo_world = Inr [reply_comment]"
    by code_simp
  show ?thesis
    using thread_newest_first[of hello_row demo_world early_comment] a b
    by (simp add: demo_world_def hidden_reply_def early_comment_def)
qed


section \<open>The view counter\<close>

lemma Model_save_view_count_eq:
  "Model_save dj (Some [''view_count'']) self w =
     (case pk self of
        None \<Rightarrow> Inl ValueError
      | Some i \<Rightarrow>
          if \<exists>r \<in> set (posts w). pk r = Some i
          then Inr (self, w\<lparr>posts := map (\<lambda>r. if pk r = Some i
                                 then r\<lparr>view_count := view_count self\<rparr> else r) (posts w)\<rparr>)
          else Inl DatabaseError)"
  by (simp add: Model_save_def Let_def non_pks_def write_columns_def write_column_def
      split: option.splits)

lemma Model_save_view_count:
  assumes "Model_save dj (Some [''view_count'']) self w = Inr (self', w')"
  shows "self' = self
       \<and> w' = w\<lparr>posts := map (\<lambda>r. if pk r = pk self then r\<lparr>view_count := view_count self\<rparr> else r)
                             (posts w)\<rparr>
       \<and> pk self \<noteq> None \<and> (\<exists>r \<in> set (posts w). pk r = pk self)"
  using assms unfolding Model_save_view_count_eq
  by (auto split: if_splits option.splits)

text \<open>
  C4, as stated, fails twice. The increment goes through \<^verbatim>\<open>Post.save\<close>, which runs
  the derived-field code on the instance: a row that still has the default reading time
  \<open>0\<close> comes back with reading time \<open>1\<close> on the instance. And the value written is
  the instance's count plus one, not the stored count plus one: two requests that loaded
  the same row before either wrote leave the stored count at \<open>1\<close>.
\<close>

theorem increment_view_count_counterexample:
  "reading_time legacy_row = 0 \<and> view_count legacy_row = 0
   \<and> increment_view_count demo_django legacy_row demo_world =
       Inr (legacy_row\<lparr>view_count := 1, reading_time := 1\<rparr>,
            demo_world\<lparr>posts := [hello_row, draft_row, legacy_row\<lparr>view_count := 1\<rparr>]\<rparr>)
   \<and> increment_view_count demo_django legacy_row
         (demo_world\<lparr>posts := [hello_row, draft_row, legacy_row\<lparr>view_count := 1\<rparr>]\<rparr>) =
       Inr (legacy_row\<lparr>view_count := 1, reading_time := 1\<rparr>,
            demo_world\<lparr>posts := [hello_row, draft_row, legacy_row\<lparr>view_count := 1\<rparr>]\<rparr>)"
proof -
  have a: "increment_view_count demo_django legacy_row demo_world =
       Inr (legacy_row\<lparr>view_count := 1, reading_time := 1\<rparr>,
            demo_world\<lparr>posts := [hello_row, draft_row, legacy_row\<lparr>view_count := 1\<rparr>]\<rparr>)"
    by code_simp
  have b: "increment_view_count demo_django legacy_row
         (demo_world\<lparr>posts := [hello_row, draft_row, legacy_row\<lparr>view_count := 1\<rparr>]\<rparr>) =
       Inr (legacy_row\<lparr>view_count := 1, reading_time := 1\<rparr>,
            demo_world\<lparr>posts := [hello_row, draft_row, legacy_row\<lparr>view_count := 1\<rparr>]\<rparr>)"
    by code_simp
  show ?thesis using a b by (simp add: legacy_row_def)
qed

text \<open>
  C4, amended. A successful \<^verbatim>\<open>increment_view_count\<close> returns the instance with its
  count raised by one and with the derived fields of \<^verbatim>\<open>Post.save\<close> recomputed on
  it; in the store it writes only the \<^verbatim>\<open>view_count\<close> column of the post's row,
  setting it to the instance's count plus one, so a row whose stored count equals the
  instance's count has it raised by exactly one. Every other column, every other row,
  the comments and the likes are unchanged.
\<close>

theorem increment_view_count_effect:
  assumes "increment_view_count dj self w = Inr (self', w')"
  shows "self' = fst (derive_fields dj (self\<lparr>view_count := view_count self + 1\<rparr>) w)
       \<and> view_count self' = view_count self + 1
       \<and> pk self \<noteq> None \<and> (\<exists>r \<in> set (posts w). pk r = pk self)
       \<and> posts w' = map (\<lambda>r. if pk r = pk self then r\<lparr>view_count := view_count self + 1\<rparr> else r)
                       (posts w)
       \<and> (\<forall>r \<in> set (posts w). pk r = pk self \<and> view_count r = view_count self \<longrightarrow>
             r\<lparr>view_count := view_count r + 1\<rparr> \<in> set (posts w'))
       \<and> comments w' = comments w \<and> likes w' = likes w"
proof -
  let ?s = "self\<lparr>view_count := view_count self + 1\<rparr>"
  let ?d = "fst (derive_fields dj ?s w)" and ?w = "snd (derive_fields dj ?s w)"
  have "Model_save dj (Some [''view_count'']) ?d ?w = Inr (self', w')"
    using assms by (simp add: increment_view_count_def Post_save_def Let_def split: prod.splits)
  from Model_save_view_count[OF this]
  have a: "self' = ?d" 
    and b: "w' = ?w\<lparr>posts := map (\<lambda>r. if pk r = pk ?d then r\<lparr>view_count := view_count ?d\<rparr> else r) (posts ?w)\<rparr>"
    and c: "pk ?d \<noteq> None" and d: "\<exists>r \<in> set (posts ?w). pk r = pk ?d"
    by blast+
  have k: "pk ?d = pk self" "view_count ?d = view_count self + 1" "posts ?w = posts w"
    "comments ?w = comments w" "likes ?w = likes w"
    by (simp_all add: derive_fields_def Let_def timezone_now_def split: prod.splits)
  have p: "posts w' = map (\<lambda>r. if pk r = pk self then r\<lparr>view_count := view_count self + 1\<rparr> else r)
                       (posts w)"
    using b k by simp
  have q: "\<forall>r \<in> set (posts w). pk r = pk self \<and> view_count r = view_count self \<longrightarrow>
             r\<lparr>view_count := view_count r + 1\<rparr> \<in> set (posts w')"
    unfolding p by (auto simp: image_iff)
  show ?thesis using a b c d k p q by simp
qed


theorem increment_view_count_effect_witness:
  "increment_view_count demo_django hello_row demo_world =
       Inr (hello_row\<lparr>view_count := 1\<rparr>,
            demo_world\<lparr>posts := [hello_row\<lparr>view_count := 1\<rparr>, draft_row, legacy_row]\<rparr>)
   \<and> hello_row \<in> set (posts demo_world)
   \<and> hello_row\<lparr>view_count := view_count hello_row + 1\<rparr> = hello_row\<lparr>view_count := 1\<rparr>
   \<and> fst (derive_fields demo_django (hello_row\<lparr>view_count := view_count hello_row + 1\<rparr>)
            demo_world) = hello_row\<lparr>view_count := 1\<rparr>"
proof -
  have a: "increment_view_count demo_django hello_row demo_world =
       Inr (hello_row\<lparr>view_count := 1\<rparr>,
            demo_world\<lparr>posts := [hello_row\<lparr>view_count := 1\<rparr>, draft_row, legacy_row]\<rparr>)"
    by code_simp
  show ?thesis
    using increment_view_count_effect[OF a] a
    by (simp add: demo_world_def hello_row_def)
qed

section \<open>Likes\<close>

text \<open>A freshly allocated key is not in use; removing the only matching row lowers a count by one.\<close>

lemma fold_max_bounds:
  "(a::nat) \<le> fold (\<lambda>k m. case k of None \<Rightarrow> m | Some i \<Rightarrow> max i m) ks a
   \<and> (\<forall>i. Some i \<in> set ks \<longrightarrow> i \<le> fold (\<lambda>k m. case k of None \<Rightarrow> m | Some i \<Rightarrow> max i m) ks a)"
proof (induction ks arbitrary: a)
  case Nil
  then show ?case by simp
next
  case (Cons k ks)
  show ?case
  proof (cases k)
    case None
    then show ?thesis using Cons.IH[of a] by simp
  next
    case (Some j)
    then show ?thesis using Cons.IH[of "max j a"] by auto
  qed
qed

lemma next_pk_fresh: "Some (next_pk ks) \<notin> set ks"
  using fold_max_bounds[of 0 ks] by (auto simp: next_pk_def)

lemma get_or_create_new:
  assumes "filter (\<lambda>l. Like_post l = p \<and> Like_user l = u) (likes w) = []"
  shows "get_or_create dj p u w =
     Inr ((\<lparr>Like_pk = Some (next_pk (map Like_pk (likes w))), Like_user = u, Like_post = p,
            Like_created_at = clock dj (ticks w)\<rparr>, True),
          w\<lparr>ticks := Suc (ticks w),
            likes := likes w @ [\<lparr>Like_pk = Some (next_pk (map Like_pk (likes w))),
              Like_user = u, Like_post = p, Like_created_at = clock dj (ticks w)\<rparr>]\<rparr>)"
  using assms by (simp add: get_or_create_def timezone_now_def Let_def)

lemma get_or_create_existing:
  assumes "filter (\<lambda>l. Like_post l = p \<and> Like_user l = u) (likes w) = [l]"
  shows "get_or_create dj p u w = Inr ((l, False), w)"
  using assms by (simp add: get_or_create_def)

lemma delete_fresh_like:
  assumes "Like_pk l = Some (next_pk (map Like_pk ls))"
  shows "filter (\<lambda>x. Like_pk x \<noteq> Like_pk l) (ls @ [l]) = ls"
proof -
  have "\<forall>x \<in> set ls. Like_pk x \<noteq> Like_pk l"
    using next_pk_fresh[of "map Like_pk ls"] assms by (metis imageI list.set_map)
  then show ?thesis by simp
qed

lemma get_post_or_404_posts:
  "posts w' = posts w \<Longrightarrow> get_post_or_404 s w' = get_post_or_404 s w"
  by (simp add: get_post_or_404_def)

lemma like_post_unfold:
  assumes "user request = User uid" and "get_post_or_404 s w = Inr post"
    and "pk post = Some post_id"
  shows "like_post dj request s w =
     (case get_or_create dj post_id uid w of
        Inl e \<Rightarrow> Inl e
      | Inr ((l, created), w') \<Rightarrow>
          if \<not> created
          then Inr (RedirectPostDetail (slug post) [''Post unliked!''], delete_like l w')
          else Inr (RedirectPostDetail (slug post) [''Post liked!''], w'))"
  using assms by (simp add: like_post_def)

lemma ajax_like_post_unfold:
  assumes "user request = User uid" and "get_post_or_404 s w = Inr post"
    and "pk post = Some post_id" and "request_method request = ''POST''"
  shows "ajax_like_post dj request s w =
     (case get_or_create dj post_id uid w of
        Inl e \<Rightarrow> Inl e
      | Inr ((l, created), w') \<Rightarrow>
          if \<not> created
          then Inr (JsonResponse False (get_like_count post (delete_like l w')) ''Post unliked'',
                    delete_like l w')
          else Inr (JsonResponse True (get_like_count post w') ''Post liked'', w'))"
  using assms by (simp add: ajax_like_post_def Let_def split: sum.splits prod.splits)

lemma toggle_from_unliked:
  assumes u: "user request = User uid"
    and p: "get_post_or_404 s w = Inr post" and k: "pk post = Some post_id"
    and n: "\<not> user_has_liked post (User uid) w"
  shows "\<exists>w1 w2.
      like_post dj request s w = Inr (RedirectPostDetail (slug post) [''Post liked!''], w1)
    \<and> (request_method request = ''POST'' \<longrightarrow>
        ajax_like_post dj request s w =
          Inr (JsonResponse True (get_like_count post w + 1) ''Post liked'', w1))
    \<and> get_like_count post w1 = get_like_count post w + 1
    \<and> user_has_liked post (User uid) w1
    \<and> like_post dj request s w1 = Inr (RedirectPostDetail (slug post) [''Post unliked!''], w2)
    \<and> (request_method request = ''POST'' \<longrightarrow>
        ajax_like_post dj request s w1 =
          Inr (JsonResponse False (get_like_count post w) ''Post unliked'', w2))
    \<and> get_like_count post w2 = get_like_count post w
    \<and> \<not> user_has_liked post (User uid) w2
    \<and> likes w2 = likes w \<and> posts w2 = posts w \<and> comments w2 = comments w"
proof -
  define l where "l = \<lparr>Like_pk = Some (next_pk (map Like_pk (likes w))), Like_user = uid,
     Like_post = post_id, Like_created_at = clock dj (ticks w)\<rparr>"
  define w1 where "w1 = w\<lparr>ticks := Suc (ticks w), likes := likes w @ [l]\<rparr>"
  define w2 where "w2 = w\<lparr>ticks := Suc (ticks w)\<rparr>"
  have none: "filter (\<lambda>x. Like_post x = post_id \<and> Like_user x = uid) (likes w) = []"
    using n k by (auto simp: user_has_liked_def filter_empty_conv)
  have g1: "get_or_create dj post_id uid w = Inr ((l, True), w1)"
    using get_or_create_new[OF none, of dj] by (simp add: l_def w1_def)
  have one: "filter (\<lambda>x. Like_post x = post_id \<and> Like_user x = uid) (likes w1) = [l]"
    using none by (simp add: w1_def l_def)
  have g2: "get_or_create dj post_id uid w1 = Inr ((l, False), w1)"
    by (rule get_or_create_existing[OF one])
  have d: "delete_like l w1 = w2"
    using delete_fresh_like[of l "likes w"] by (simp add: delete_like_def w1_def w2_def l_def)
  have p1: "get_post_or_404 s w1 = Inr post"
    using p get_post_or_404_posts[of w1 w s] by (simp add: w1_def)
  have c1: "get_like_count post w1 = get_like_count post w + 1"
    using k by (simp add: get_like_count_def w1_def l_def)
  have c2: "get_like_count post w2 = get_like_count post w"
    by (simp add: get_like_count_def w2_def)
  have h1: "user_has_liked post (User uid) w1"
    using k by (simp add: user_has_liked_def w1_def l_def)
  have h2: "\<not> user_has_liked post (User uid) w2"
    using n by (simp add: user_has_liked_def w2_def)
  have a: "like_post dj request s w = Inr (RedirectPostDetail (slug post) [''Post liked!''], w1)"
    by (simp add: like_post_unfold[OF u p k] g1)
  have b: "request_method request = ''POST'' \<longrightarrow>
        ajax_like_post dj request s w =
          Inr (JsonResponse True (get_like_count post w + 1) ''Post liked'', w1)"
    using ajax_like_post_unfold[OF u p k] by (simp add: g1 c1)
  have a': "like_post dj request s w1 =
        Inr (RedirectPostDetail (slug post) [''Post unliked!''], w2)"
    by (simp add: like_post_unfold[OF u p1 k] g2 d)
  have b': "request_method request = ''POST'' \<longrightarrow>
        ajax_like_post dj request s w1 =
          Inr (JsonResponse False (get_like_count post w) ''Post unliked'', w2)"
    using ajax_like_post_unfold[OF u p1 k] by (simp add: g2 d c2)
  have f: "likes w2 = likes w \<and> posts w2 = posts w \<and> comments w2 = comments w"
    by (simp add: w2_def)
  show ?thesis using a b c1 h1 a' b' c2 h2 f by blast
qed

lemma filter_single_holds:
  assumes "filter C xs = [a]"
  shows "C a \<and> a \<in> set xs"
proof -
  have "a \<in> set (filter C xs)" unfolding assms by simp
  then show ?thesis by simp
qed

lemma count_without_unique:
  assumes "filter C xs = [a]" and "\<And>x. C x \<Longrightarrow> P x"
  shows "length (filter P xs) = Suc (length (filter P (filter (\<lambda>x. x \<noteq> a) xs)))"
  using assms(1)
proof (induction xs)
  case Nil
  then show ?case by simp
next
  case (Cons x xs)
  have ca: "C a" using filter_single_holds[OF Cons.prems] by simp
  show ?case
  proof (cases "C x")
    case True
    with Cons.prems have xa: "x = a" and e: "filter C xs = []" by simp_all
    from e ca have "\<forall>y \<in> set xs. y \<noteq> a" by (auto simp: filter_empty_conv)
    then have "filter (\<lambda>y. y \<noteq> a) xs = xs" by simp
    with xa ca assms(2) show ?thesis by simp
  next
    case False
    with Cons.prems have f: "filter C xs = [a]" by simp
    from False ca have "x \<noteq> a" by auto
    with Cons.IH[OF f] show ?thesis by simp
  qed
qed

lemma toggle_from_liked:
  assumes u: "user request = User uid"
    and p: "get_post_or_404 s w = Inr post" and k: "pk post = Some post_id"
    and one: "filter (\<lambda>x. Like_post x = post_id \<and> Like_user x = uid) (likes w) = [l0]"
    and uniq: "\<forall>x \<in> set (likes w). Like_pk x = Like_pk l0 \<longrightarrow> x = l0"
  shows "\<exists>w1 w2.
      like_post dj request s w = Inr (RedirectPostDetail (slug post) [''Post unliked!''], w1)
    \<and> (request_method request = ''POST'' \<longrightarrow>
        ajax_like_post dj request s w =
          Inr (JsonResponse False (get_like_count post w1) ''Post unliked'', w1))
    \<and> get_like_count post w1 + 1 = get_like_count post w
    \<and> \<not> user_has_liked post (User uid) w1
    \<and> like_post dj request s w1 = Inr (RedirectPostDetail (slug post) [''Post liked!''], w2)
    \<and> (request_method request = ''POST'' \<longrightarrow>
        ajax_like_post dj request s w1 =
          Inr (JsonResponse True (get_like_count post w) ''Post liked'', w2))
    \<and> get_like_count post w2 = get_like_count post w
    \<and> user_has_liked post (User uid) w2
    \<and> posts w2 = posts w \<and> comments w2 = comments w"
proof -
  define w1 where "w1 = w\<lparr>likes := filter (\<lambda>x. x \<noteq> l0) (likes w)\<rparr>"
  define l where "l = \<lparr>Like_pk = Some (next_pk (map Like_pk (likes w1))), Like_user = uid,
     Like_post = post_id, Like_created_at = clock dj (ticks w1)\<rparr>"
  define w2 where "w2 = w1\<lparr>ticks := Suc (ticks w1), likes := likes w1 @ [l]\<rparr>"
  have fl: "filter (\<lambda>x. Like_pk x \<noteq> Like_pk l0) (likes w) = filter (\<lambda>x. x \<noteq> l0) (likes w)"
    using uniq by (intro filter_cong) auto
  have d: "delete_like l0 w = w1"
    by (simp add: delete_like_def w1_def fl)
  have g1: "get_or_create dj post_id uid w = Inr ((l0, False), w)"
    by (rule get_or_create_existing[OF one])
  have only: "\<forall>x \<in> set (likes w). Like_post x = post_id \<and> Like_user x = uid \<longrightarrow> x = l0"
  proof (intro ballI impI)
    fix x assume "x \<in> set (likes w)" and "Like_post x = post_id \<and> Like_user x = uid"
    then have "x \<in> set (filter (\<lambda>x. Like_post x = post_id \<and> Like_user x = uid) (likes w))"
      by simp
    then show "x = l0" unfolding one by simp
  qed
  have none1: "filter (\<lambda>x. Like_post x = post_id \<and> Like_user x = uid) (likes w1) = []"
    using only by (auto simp: w1_def filter_empty_conv)
  have g2: "get_or_create dj post_id uid w1 = Inr ((l, True), w2)"
    using get_or_create_new[OF none1, of dj] by (simp add: l_def w2_def)
  have p1: "get_post_or_404 s w1 = Inr post"
    using p get_post_or_404_posts[of w1 w s] by (simp add: w1_def)
  have c1: "get_like_count post w1 + 1 = get_like_count post w"
    using count_without_unique[OF one, of "\<lambda>x. Some (Like_post x) = pk post"] k
    by (simp add: get_like_count_def w1_def)
  have c2: "get_like_count post w2 = get_like_count post w"
    using c1 k by (simp add: get_like_count_def w2_def l_def)
  have h1: "\<not> user_has_liked post (User uid) w1"
    using none1 k by (auto simp: user_has_liked_def filter_empty_conv)
  have h2: "user_has_liked post (User uid) w2"
    using k by (simp add: user_has_liked_def w2_def l_def)
  have a: "like_post dj request s w =
        Inr (RedirectPostDetail (slug post) [''Post unliked!''], w1)"
    by (simp add: like_post_unfold[OF u p k] g1 d)
  have b: "request_method request = ''POST'' \<longrightarrow>
        ajax_like_post dj request s w =
          Inr (JsonResponse False (get_like_count post w1) ''Post unliked'', w1)"
    using ajax_like_post_unfold[OF u p k] by (simp add: g1 d)
  have a': "like_post dj request s w1 =
        Inr (RedirectPostDetail (slug post) [''Post liked!''], w2)"
    by (simp add: like_post_unfold[OF u p1 k] g2)
  have b': "request_method request = ''POST'' \<longrightarrow>
        ajax_like_post dj request s w1 =
          Inr (JsonResponse True (get_like_count post w) ''Post liked'', w2)"
    using ajax_like_post_unfold[OF u p1 k] by (simp add: g2 c2)
  have f: "posts w2 = posts w \<and> comments w2 = comments w"
    by (simp add: w2_def w1_def)
  show ?thesis using a b c1 h1 a' b' c2 h2 f by blast
qed

text \<open>
  C6. For an authenticated user and a stored post, two like requests in a row restore
  the original state, through either endpoint. When the user has no like on the post,
  the first request inserts one and reports "liked" (the count rises by one), the
  second deletes it and reports "unliked": the like table, and so the count, are as
  before. When the user's like exists (one row, its key unique), the first request
  deletes it and the second inserts a new one: the count and the liked state are as
  before.
\<close>

theorem toggle_like_twice:
  assumes "user request = User uid"
    and "get_post_or_404 s w = Inr post" and "pk post = Some post_id"
  shows "(\<not> user_has_liked post (User uid) w \<longrightarrow>
          (\<exists>w1 w2.
              like_post dj request s w =
                Inr (RedirectPostDetail (slug post) [''Post liked!''], w1)
            \<and> (request_method request = ''POST'' \<longrightarrow>
                ajax_like_post dj request s w =
                  Inr (JsonResponse True (get_like_count post w + 1) ''Post liked'', w1))
            \<and> get_like_count post w1 = get_like_count post w + 1
            \<and> user_has_liked post (User uid) w1
            \<and> like_post dj request s w1 =
                Inr (RedirectPostDetail (slug post) [''Post unliked!''], w2)
            \<and> (request_method request = ''POST'' \<longrightarrow>
                ajax_like_post dj request s w1 =
                  Inr (JsonResponse False (get_like_count post w) ''Post unliked'', w2))
            \<and> get_like_count post w2 = get_like_count post w
            \<and> \<not> user_has_liked post (User uid) w2
            \<and> likes w2 = likes w \<and> posts w2 = posts w \<and> comments w2 = comments w))
       \<and> (\<forall>l0. filter (\<lambda>x. Like_post x = post_id \<and> Like_user x = uid) (likes w) = [l0]
               \<and> (\<forall>x \<in> set (likes w). Like_pk x = Like_pk l0 \<longrightarrow> x = l0) \<longrightarrow>
          (\<exists>w1 w2.
              like_post dj request s w =
                Inr (RedirectPostDetail (slug post) [''Post unliked!''], w1)
            \<and> (request_method request = ''POST'' \<longrightarrow>
                ajax_like_post dj request s w =
                  Inr (JsonResponse False (get_like_count post w1) ''Post unliked'', w1))
            \<and> get_like_count post w1 + 1 = get_like_count post w
            \<and> \<not> user_has_liked post (User uid) w1
            \<and> like_post dj request s w1 =
                Inr (RedirectPostDetail (slug post) [''Post liked!''], w2)
            \<and> (request_method request = ''POST'' \<longrightarrow>
                ajax_like_post dj request s w1 =
                  Inr (JsonResponse True (get_like_count post w) ''Post liked'', w2))
            \<and> get_like_count post w2 = get_like_count post w
            \<and> user_has_liked post (User uid) w2
            \<and> posts w2 = posts w \<and> comments w2 = comments w))"
  using toggle_from_unliked[OF assms, of dj] toggle_from_liked[OF assms, of _ dj]
  by blast


theorem toggle_like_twice_witness:
  "user demo_request = User 2 \<and> request_method demo_request = ''POST''
   \<and> get_post_or_404 ''hello'' demo_world = Inr hello_row \<and> pk hello_row = Some 1
   \<and> \<not> user_has_liked hello_row (User 2) demo_world
   \<and> get_like_count hello_row demo_world = 1
   \<and> (\<exists>w1 w2.
          like_post demo_django demo_request ''hello'' demo_world =
            Inr (RedirectPostDetail (slug hello_row) [''Post liked!''], w1)
        \<and> ajax_like_post demo_django demo_request ''hello'' demo_world =
            Inr (JsonResponse True (get_like_count hello_row demo_world + 1) ''Post liked'', w1)
        \<and> get_like_count hello_row w1 = get_like_count hello_row demo_world + 1
        \<and> user_has_liked hello_row (User 2) w1
        \<and> like_post demo_django demo_request ''hello'' w1 =
            Inr (RedirectPostDetail (slug hello_row) [''Post unliked!''], w2)
        \<and> ajax_like_post demo_django demo_request ''hello'' w1 =
            Inr (JsonResponse False (get_like_count hello_row demo_world) ''Post unliked'', w2)
        \<and> get_like_count hello_row w2 = get_like_count hello_row demo_world
        \<and> \<not> user_has_liked hello_row (User 2) w2
        \<and> likes w2 = likes demo_world \<and> posts w2 = posts demo_world
        \<and> comments w2 = comments demo_world)
   \<and> filter (\<lambda>x. Like_post x = 1 \<and> Like_user x = 3) (likes demo_world) = [other_like]
   \<and> (\<exists>w1 w2.
          like_post demo_django (demo_request\<lparr>user := User 3\<rparr>) ''hello'' demo_world =
            Inr (RedirectPostDetail (slug hello_row) [''Post unliked!''], w1)
        \<and> get_like_count hello_row w1 + 1 = get_like_count hello_row demo_world
        \<and> like_post demo_django (demo_request\<lparr>user := User 3\<rparr>) ''hello'' w1 =
            Inr (RedirectPostDetail (slug hello_row) [''Post liked!''], w2)
        \<and> get_like_count hello_row w2 = get_like_count hello_row demo_world
        \<and> user_has_liked hello_row (User 3) w2)"
proof -
  have h1: "user demo_request = User 2" by (simp add: demo_request_def)
  have h2: "request_method demo_request = ''POST''" by (simp add: demo_request_def)
  have h3: "get_post_or_404 ''hello'' demo_world = Inr hello_row" by code_simp
  have h4: "pk hello_row = Some 1" by (simp add: hello_row_def)
  have h5: "\<not> user_has_liked hello_row (User 2) demo_world" by code_simp
  have h6: "get_like_count hello_row demo_world = 1" by code_simp
  have k1: "user (demo_request\<lparr>user := User 3\<rparr>) = User 3" by simp
  have k5: "filter (\<lambda>x. Like_post x = 1 \<and> Like_user x = 3) (likes demo_world) = [other_like]"
    by code_simp
  have k6: "\<forall>x \<in> set (likes demo_world). Like_pk x = Like_pk other_like \<longrightarrow> x = other_like"
    by (simp add: demo_world_def)
  have first: "\<exists>w1 w2.
          like_post demo_django demo_request ''hello'' demo_world =
            Inr (RedirectPostDetail (slug hello_row) [''Post liked!''], w1)
        \<and> ajax_like_post demo_django demo_request ''hello'' demo_world =
            Inr (JsonResponse True (get_like_count hello_row demo_world + 1) ''Post liked'', w1)
        \<and> get_like_count hello_row w1 = get_like_count hello_row demo_world + 1
        \<and> user_has_liked hello_row (User 2) w1
        \<and> like_post demo_django demo_request ''hello'' w1 =
            Inr (RedirectPostDetail (slug hello_row) [''Post unliked!''], w2)
        \<and> ajax_like_post demo_django demo_request ''hello'' w1 =
            Inr (JsonResponse False (get_like_count hello_row demo_world) ''Post unliked'', w2)
        \<and> get_like_count hello_row w2 = get_like_count hello_row demo_world
        \<and> \<not> user_has_liked hello_row (User 2) w2
        \<and> likes w2 = likes demo_world \<and> posts w2 = posts demo_world
        \<and> comments w2 = comments demo_world"
    using toggle_like_twice[OF h1 h3 h4, where dj = demo_django] h2 h5
    by blast
  have second: "\<exists>w1 w2.
          like_post demo_django (demo_request\<lparr>user := User 3\<rparr>) ''hello'' demo_world =
            Inr (RedirectPostDetail (slug hello_row) [''Post unliked!''], w1)
        \<and> get_like_count hello_row w1 + 1 = get_like_count hello_row demo_world
        \<and> like_post demo_django (demo_request\<lparr>user := User 3\<rparr>) ''hello'' w1 =
            Inr (RedirectPostDetail (slug hello_row) [''Post liked!''], w2)
        \<and> get_like_count hello_row w2 = get_like_count hello_row demo_world
        \<and> user_has_liked hello_row (User 3) w2"
  proof -
    from toggle_like_twice[OF k1 h3 h4, where dj = demo_django] k5 k6
    obtain w1 w2 where
      "like_post demo_django (demo_request\<lparr>user := User 3\<rparr>) ''hello'' demo_world =
            Inr (RedirectPostDetail (slug hello_row) [''Post unliked!''], w1)"
      "get_like_count hello_row w1 + 1 = get_like_count hello_row demo_world"
      "like_post demo_django (demo_request\<lparr>user := User 3\<rparr>) ''hello'' w1 =
            Inr (RedirectPostDetail (slug hello_row) [''Post liked!''], w2)"
      "get_like_count hello_row w2 = get_like_count hello_row demo_world"
      "user_has_liked hello_row (User 3) w2"
      by blast
    then show ?thesis by blast
  qed
  show ?thesis using h1 h2 h3 h4 h5 h6 k5 first second by blast
qed

section \<open>Who can read a post\<close>

lemma get_object_Inr:
  "get_object u s w = Inr p \<longleftrightarrow> filter (\<lambda>q. slug q = s) (get_queryset u w) = [p]"
  by (auto simp: get_object_def split: list.splits)

lemma get_queryset_slug:
  "filter (\<lambda>q. slug q = s) (get_queryset u w) =
     filter (\<lambda>p. if is_authenticated u
                  then status p = ''published'' \<or> (User (author p) = u \<and> status p = ''draft'')
                  else status p = ''published'')
       (filter (\<lambda>q. slug q = s) (posts w))"
  by (auto simp: get_queryset_def intro: filter_cong)

text \<open>
  C7. A post read through the detail view is a stored post with the slug asked for; it
  is published, or it is a draft and the reader is its author. An anonymous reader gets
  published posts only. A published post (its slug unique) is returned to every reader;
  a draft is returned to its author and is a 404 for everybody else.
\<close>

theorem detail_visibility:
  "(get_object u s w = Inr p \<longrightarrow>
      p \<in> set (posts w) \<and> slug p = s
      \<and> (status p = ''published'' \<or> (status p = ''draft'' \<and> u = User (author p))))
   \<and> (get_object AnonymousUser s w = Inr p \<longrightarrow> status p = ''published'')
   \<and> (filter (\<lambda>q. slug q = s) (posts w) = [p] \<and> status p = ''published'' \<longrightarrow>
        get_object u s w = Inr p)
   \<and> (filter (\<lambda>q. slug q = s) (posts w) = [p] \<and> status p = ''draft'' \<longrightarrow>
        get_object (User (author p)) s w = Inr p
        \<and> (u \<noteq> User (author p) \<longrightarrow> get_object u s w = Inl Http404))"
proof -
  have a: "get_object u s w = Inr p \<Longrightarrow> p \<in> set (posts w) \<and> slug p = s
      \<and> (status p = ''published'' \<or> (status p = ''draft'' \<and> u = User (author p)))"
    using filter_single_holds[of "\<lambda>q. slug q = s" "get_queryset u w" p]
    by (auto simp: get_object_Inr get_queryset_def split: if_splits)
  have b: "get_object AnonymousUser s w = Inr p \<Longrightarrow> status p = ''published''"
    using filter_single_holds[of "\<lambda>q. slug q = s" "get_queryset AnonymousUser w" p]
    by (auto simp: get_object_Inr get_queryset_def)
  have c: "filter (\<lambda>q. slug q = s) (posts w) = [p] \<Longrightarrow> status p = ''published'' \<Longrightarrow>
      get_object u s w = Inr p"
    by (simp add: get_object_Inr get_queryset_slug)
  have d: "filter (\<lambda>q. slug q = s) (posts w) = [p] \<Longrightarrow> status p = ''draft'' \<Longrightarrow>
      get_object (User (author p)) s w = Inr p"
    by (simp add: get_object_Inr get_queryset_slug)
  have e: "filter (\<lambda>q. slug q = s) (posts w) = [p] \<Longrightarrow> status p = ''draft'' \<Longrightarrow>
      u \<noteq> User (author p) \<Longrightarrow> get_object u s w = Inl Http404"
    by (auto simp: get_object_def get_queryset_slug)
  show ?thesis using a b c d e by blast
qed


theorem detail_visibility_witness:
  "get_object (User 1) ''notes'' demo_world = Inr draft_row
   \<and> status draft_row = ''draft'' \<and> author draft_row = 1
   \<and> filter (\<lambda>q. slug q = ''notes'') (posts demo_world) = [draft_row]
   \<and> get_object (User 2) ''notes'' demo_world = Inl Http404
   \<and> get_object AnonymousUser ''notes'' demo_world = Inl Http404
   \<and> get_object AnonymousUser ''hello'' demo_world = Inr hello_row
   \<and> status hello_row = ''published''"
proof -
  have a: "filter (\<lambda>q. slug q = ''notes'') (posts demo_world) = [draft_row]" by code_simp
  have b: "status draft_row = ''draft''" "author draft_row = 1" by (simp_all add: draft_row_def)
  have c: "get_object AnonymousUser ''hello'' demo_world = Inr hello_row" by code_simp
  show ?thesis
    using detail_visibility[of "User 2" "''notes''" demo_world draft_row]
      detail_visibility[of AnonymousUser "''notes''" demo_world draft_row]
      detail_visibility[of AnonymousUser "''hello''" demo_world hello_row] a b c
    by simp
qed

section \<open>Comment submission\<close>









section \<open>Anonymous readers and drafts\<close>

text \<open>
  C9. \<^verbatim>\<open>user_has_liked\<close> is false for the anonymous user, whatever the likes of
  the post are; it has no failing branch. The detail view's context says the same.
\<close>

theorem anonymous_has_not_liked:
  "user_has_liked self AnonymousUser w = False
   \<and> (get_context_data dj AnonymousUser self w = Inr (ctx, w') \<longrightarrow> \<not> ctx_user_has_liked ctx)"
  by (auto simp: user_has_liked_def get_context_data_def split: sum.splits if_splits)


theorem anonymous_has_not_liked_witness:
  "likes demo_world = [other_like] \<and> Some (Like_post other_like) = pk hello_row
   \<and> user_has_liked hello_row (User 3) demo_world
   \<and> user_has_liked hello_row AnonymousUser demo_world = False"
proof -
  have a: "likes demo_world = [other_like]" by (simp add: demo_world_def)
  have b: "Some (Like_post other_like) = pk hello_row"
    by (simp add: other_like_def hello_row_def)
  have c: "user_has_liked hello_row (User 3) demo_world" by code_simp
  show ?thesis
    using anonymous_has_not_liked[of hello_row demo_world] a b c by simp
qed

text \<open>
  C10. When the post found by the detail view is not published (an author reading a
  draft of theirs), the view succeeds and leaves the whole store as it was: no view is
  counted and no field of any row changes. The view changes the store only for a
  published post.
\<close>

theorem draft_view_changes_nothing:
  assumes "get_object u s w = Inr post"
  shows "(status post \<noteq> ''published'' \<longrightarrow>
           (\<exists>ctx. PostDetailView dj u s w = Inr (ctx, w) \<and> object ctx = post))
       \<and> (\<forall>ctx w'. PostDetailView dj u s w = Inr (ctx, w') \<and> w' \<noteq> w \<longrightarrow>
             status post = ''published'')"
  using assms by (auto simp: PostDetailView_def get_context_data_def)


theorem draft_view_changes_nothing_witness:
  "get_object (User 1) ''notes'' demo_world = Inr draft_row
   \<and> status draft_row \<noteq> ''published''
   \<and> (\<exists>ctx. PostDetailView demo_django (User 1) ''notes'' demo_world = Inr (ctx, demo_world)
          \<and> object ctx = draft_row)"
proof -
  have a: "get_object (User 1) ''notes'' demo_world = Inr draft_row" by code_simp
  have b: "status draft_row \<noteq> ''published''" by (simp add: draft_row_def)
  show ?thesis
    using draft_view_changes_nothing[OF a, where dj = demo_django] a b by blast
qed

end
